theory Spec2Isabelle
  imports Complex_Main "HOL-Library.Sublist" "HOL-Library.Log_Nat"
begin

section \<open>Python values, exceptions and results\<close>

text \<open>
  The program is \<^verbatim>\<open>main.py\<close>, a single-threaded monitor: it probes one IPv4 address with
  \<^verbatim>\<open>ping\<close>, compares the outcome with the remembered status, sends a Telegram message on
  a change and writes the remembered status to a JSON file.

  Python strings are modelled as \<^typ>\<open>string\<close>. The Cyrillic literals of the source are
  the byte sequences of their UTF-8 encoding. Unbounded Python integers are \<^typ>\<open>int\<close>.
  A Python float is a double: a finite one is the real number it denotes, and every
  float operation of the program rounds its exact result to the nearest double; the two
  infinities and NaN are values of their own. Logging has no influence on control flow
  and is left out.
\<close>

text \<open>
  The exceptions that can leave the program uncaught. \<open>TimestampRange\<close> stands for what
  \<^verbatim>\<open>datetime.fromtimestamp\<close> raises on a number it cannot represent (OverflowError,
  OSError or ValueError, depending on the platform).
\<close>

datatype py_exc =
  KeyError | TypeError | ValueError | OverflowError | UnicodeDecodeError | OSError | TimestampRange

text \<open>
  A call either returns, or leaves through \<^verbatim>\<open>sys.exit(code)\<close>, or raises an exception
  that nothing in the program catches.
\<close>

datatype 'a result = Returns 'a | SysExit int | Raises py_exc

fun bind :: "'a result \<Rightarrow> ('a \<Rightarrow> 'b result) \<Rightarrow> 'b result" where
  "bind (Returns x) f = f x"
| "bind (SysExit c) f = SysExit c"
| "bind (Raises e) f = Raises e"

text \<open>
  The value \<^verbatim>\<open>json.load\<close> hands back; a dictionary is the list of its items. A number
  is an integer of any size or a double.
\<close>

datatype pyval =
    PyNone
  | PyBool bool
  | PyNum real
  | PyStr string
  | PyList "pyval list"
  | PyDict "(string \<times> pyval) list"

section \<open>Floating-point numbers\<close>

datatype pyfloat = Finite real | PosInf | NegInf | NaN

text \<open>
  Rounding to the nearest double, ties to the even significand. \<open>binade x\<close> is the
  exponent \<open>e\<close> with \<open>2 ^ e \<le> \<bar>x\<bar> < 2 ^ (e + 1)\<close>; a double has 53 significant bits, so
  its last place is worth \<open>2 ^ (e - 52)\<close>, and never less than \<open>2 ^ (- 1074)\<close>.
\<close>

definition pow2 :: "int \<Rightarrow> real" where
  "pow2 e = (if 0 \<le> e then 2 ^ nat e else 1 / 2 ^ nat (- e))"

definition binade :: "real \<Rightarrow> int" where
  "binade x = (if 1 \<le> \<bar>x\<bar> then bitlen \<lfloor>\<bar>x\<bar>\<rfloor> - 1 else - bitlen (\<lceil>1 / \<bar>x\<bar>\<rceil> - 1))"

definition round_half_even :: "real \<Rightarrow> int" where
  "round_half_even q =
     (let f = \<lfloor>q\<rfloor>; r = q - of_int f
      in if r < 1 / 2 then f else if 1 / 2 < r then f + 1 else if even f then f else f + 1)"

definition round_double :: "real \<Rightarrow> real" where
  "round_double x =
     (if x = 0 then 0
      else let ulp = pow2 (max (binade x) (- 1022) - 52)
           in of_int (round_half_even (x / ulp)) * ulp)"

text \<open>A rounded result of magnitude \<open>2 ^ 1024\<close> or more is an infinity.\<close>

definition to_float :: "real \<Rightarrow> pyfloat" where
  "to_float r = (if pow2 1024 \<le> \<bar>r\<bar> then (if r < 0 then NegInf else PosInf) else Finite r)"

text \<open>\<^verbatim>\<open>int(x)\<close> on a float cuts the fraction off.\<close>

definition int_trunc :: "real \<Rightarrow> int" where
  "int_trunc x = (if 0 \<le> x then \<lfloor>x\<rfloor> else \<lceil>x\<rceil>)"

definition int_of_float :: "pyfloat \<Rightarrow> int result" where
  "int_of_float x =
     (case x of
        Finite y \<Rightarrow> Returns (int_trunc y)
      | PosInf \<Rightarrow> Raises OverflowError
      | NegInf \<Rightarrow> Raises OverflowError
      | NaN \<Rightarrow> Raises ValueError)"

text \<open>
  \<^verbatim>\<open>vx // wx\<close> on finite doubles, as CPython computes it: the remainder \<^verbatim>\<open>fmod(vx, wx)\<close>
  is exact and has the sign of \<open>vx\<close>; the quotient of what is left is rounded, lowered
  by one when the remainder and the divisor differ in sign, and snapped to an integral
  value. No intermediate result exceeds \<open>vx\<close> in magnitude, so none overflows.
\<close>

definition fmod :: "real \<Rightarrow> real \<Rightarrow> real" where
  "fmod vx wx = vx - wx * of_int (int_trunc (vx / wx))"

definition float_floordiv :: "real \<Rightarrow> real \<Rightarrow> real" where
  "float_floordiv vx wx =
     (let m = fmod vx wx;
          d = round_double (round_double (vx - m) / wx);
          d = (if m \<noteq> 0 \<and> (wx < 0) \<noteq> (m < 0) then round_double (d - 1) else d)
      in if d \<noteq> 0 then
           (let fl = of_int \<lfloor>d\<rfloor>
            in if d - fl > 1 / 2 then round_double (fl + 1) else fl)
         else 0)"

text \<open>
  \<^verbatim>\<open>seconds // 60\<close>: with an infinity or NaN on the left the remainder is NaN, and so is
  the result.
\<close>

definition floordiv_60 :: "pyfloat \<Rightarrow> pyfloat" where
  "floordiv_60 seconds =
     (case seconds of
        Finite x \<Rightarrow> Finite (float_floordiv x 60)
      | PosInf \<Rightarrow> NaN
      | NegInf \<Rightarrow> NaN
      | NaN \<Rightarrow> NaN)"

section \<open>Text helpers\<close>

text \<open>\<^verbatim>\<open>ip.split(".")\<close>: every dot separates; the empty string gives one empty part.\<close>

fun split_dot :: "string \<Rightarrow> string list" where
  "split_dot [] = [[]]"
| "split_dot (c # cs) =
     (if c = CHR ''.'' then [] # split_dot cs
      else (case split_dot cs of [] \<Rightarrow> [[c]] | p # ps \<Rightarrow> (c # p) # ps))"

text \<open>\<^verbatim>\<open>" ".join(parts)\<close>.\<close>

fun join_space :: "string list \<Rightarrow> string" where
  "join_space [] = []"
| "join_space [p] = p"
| "join_space (p # q # ps) = p @ CHR '' '' # join_space (q # ps)"

text \<open>The decimal text of an integer, as \<^verbatim>\<open>f"{n}"\<close> prints it.\<close>

definition digit_char :: "nat \<Rightarrow> char" where
  "digit_char d = ''0123456789'' ! d"

fun str_nat :: "nat \<Rightarrow> string" where
  "str_nat n = (if n < 10 then [digit_char n] else str_nat (n div 10) @ [digit_char (n mod 10)])"

definition str_int :: "int \<Rightarrow> string" where
  "str_int i = (if i < 0 then CHR ''-'' # str_nat (nat (- i)) else str_nat (nat i))"

section \<open>The built-in \<^verbatim>\<open>int(text)\<close>\<close>

text \<open>
  \<^verbatim>\<open>int(s)\<close> on a string, base 10, as CPython reads an ASCII string: blanks are skipped
  at both ends, one sign may precede the digits, a single underscore may stand between
  two digits, and at least one digit is needed. A text of more than 4300 digits is
  refused (the interpreter's default limit). \<open>None\<close> stands for \<^verbatim>\<open>ValueError\<close>.
  Characters beyond ASCII that Unicode classes as digits or blanks are not represented.
\<close>

definition is_space :: "char \<Rightarrow> bool" where
  "is_space c = (c \<in> set [CHR '' '', CHR 0x09, CHR 0x0A, CHR 0x0B, CHR 0x0C, CHR 0x0D])"

definition is_digit :: "char \<Rightarrow> bool" where
  "is_digit c = (c \<in> set ''0123456789'')"

definition digit_value :: "char \<Rightarrow> int" where
  "digit_value c = int (of_char c) - 48"

definition max_str_digits :: nat where
  "max_str_digits = 4300"

text \<open>
  The scan over digits and underscores: the value so far, the number of digits so far,
  the previous character. It stops at the first other character and returns the rest.
\<close>

fun scan_digits :: "int \<Rightarrow> nat \<Rightarrow> char \<Rightarrow> string \<Rightarrow> (int \<times> nat \<times> string) option" where
  "scan_digits acc n prev [] = (if prev = CHR ''_'' then None else Some (acc, n, []))"
| "scan_digits acc n prev (c # cs) =
     (if is_digit c then scan_digits (acc * 10 + digit_value c) (Suc n) c cs
      else if c = CHR ''_'' then
        (if prev = CHR ''_'' then None else scan_digits acc n c cs)
      else if prev = CHR ''_'' then None
      else Some (acc, n, c # cs))"

definition py_int :: "string \<Rightarrow> int option" where
  "py_int s =
     (let s1 = dropWhile is_space s;
          sign = (case s1 of [] \<Rightarrow> 1 | c # _ \<Rightarrow> if c = CHR ''-'' then - 1 else 1);
          s2 = (case s1 of [] \<Rightarrow> []
                | c # r \<Rightarrow> if c = CHR ''+'' \<or> c = CHR ''-'' then r else s1)
      in case s2 of
           [] \<Rightarrow> None
         | c # _ \<Rightarrow>
             if \<not> is_digit c then None
             else (case scan_digits 0 0 (CHR 0x00) s2 of
                     None \<Rightarrow> None
                   | Some (v, n, rest) \<Rightarrow>
                       if n > max_str_digits then None
                       else if dropWhile is_space rest = [] then Some (sign * v)
                       else None))"

section \<open>Address validation\<close>

text \<open>
  \<^verbatim>\<open>validate_ipv4\<close>: four parts, and the loop over the parts, which returns False at
  the first part that \<^verbatim>\<open>int\<close> refuses or that lies outside 0..255.
\<close>

fun check_parts :: "string list \<Rightarrow> bool" where
  "check_parts [] = True"
| "check_parts (part # parts) =
     (case py_int part of
        None \<Rightarrow> False
      | Some num \<Rightarrow> if num < 0 \<or> num > 255 then False else check_parts parts)"

definition validate_ipv4 :: "string \<Rightarrow> bool" where
  "validate_ipv4 ip =
     (let parts = split_dot ip
      in if length parts \<noteq> 4 then False else check_parts parts)"

section \<open>Duration formatting\<close>

definition unit_days :: string where
  "unit_days = [CHR 0xD0, CHR 0xB4]"

definition unit_hours :: string where
  "unit_hours = [CHR 0xD0, CHR 0xB3, CHR 0xD0, CHR 0xBE, CHR 0xD0, CHR 0xB4]"

definition unit_minutes :: string where
  "unit_minutes = [CHR 0xD1, CHR 0x85, CHR 0xD0, CHR 0xB2]"

text \<open>
  \<^verbatim>\<open>format_duration\<close>. \<^verbatim>\<open>int(seconds // 60)\<close> raises ValueError when the quotient is
  NaN. \<^verbatim>\<open>//\<close> and \<^verbatim>\<open>%\<close> on Python integers round towards minus infinity, as \<open>div\<close>
  and \<open>mod\<close> on \<^typ>\<open>int\<close> do. The three components are kept in a function of their own
  so that they can be named.
\<close>

definition duration_components :: "int \<Rightarrow> int \<times> int \<times> int" where
  "duration_components total_minutes =
     (let days = total_minutes div (24 * 60);
          remaining = total_minutes mod (24 * 60);
          hours = remaining div 60;
          minutes = remaining mod 60
      in (days, hours, minutes))"

definition format_duration :: "pyfloat \<Rightarrow> string result" where
  "format_duration seconds =
     bind (int_of_float (floordiv_60 seconds)) (\<lambda>total_minutes.
       case duration_components total_minutes of
         (days, hours, minutes) \<Rightarrow>
           (let parts = [];
                parts = (if days > 0 then parts @ [str_int days @ unit_days] else parts);
                parts = (if days > 0 \<or> hours > 0 then parts @ [str_int hours @ unit_hours]
                         else parts);
                parts = parts @ [str_int minutes @ unit_minutes]
            in Returns (join_space parts)))"

text \<open>
  The formatter as the specification words it, for comparison with the code: the minutes
  are taken from the total directly, and each segment is decided on its own.
\<close>

definition format_duration_spec :: "real \<Rightarrow> string" where
  "format_duration_spec seconds =
     (let total = \<lfloor>seconds / 60\<rfloor>;
          days = total div 1440;
          hours = (total mod 1440) div 60;
          minutes = total mod 60;
          days_segment = (if days > 0 then [str_int days @ unit_days] else []);
          hours_segment = (if days > 0 \<or> hours > 0 then [str_int hours @ unit_hours] else []);
          minutes_segment = [str_int minutes @ unit_minutes]
      in join_space (days_segment @ hours_segment @ minutes_segment))"

section \<open>The world the program runs in\<close>

text \<open>
  Everything the program reads from outside is an input of the model: the environment
  variables, the state file as \<^verbatim>\<open>load_state\<close> finds it, and for each pass of the loop
  (a \<open>tick\<close>) what \<^verbatim>\<open>subprocess.run\<close> did, the two clock readings, the answers of the
  HTTP requests by attempt number and whether the disk takes a write. Everything the
  program does to the outside is an event of a trace, in the order of execution.
\<close>

type_synonym environ = "string \<rightharpoonup> string"

datatype state_file =
    Missing \<comment> \<open>\<^verbatim>\<open>STATE_FILE.exists()\<close> is false\<close>
  | Unreadable \<comment> \<open>\<^verbatim>\<open>open\<close> or the read raises IOError\<close>
  | Undecodable \<comment> \<open>the bytes are not text in the file's encoding: UnicodeDecodeError\<close>
  | Unparseable \<comment> \<open>\<^verbatim>\<open>json.load\<close> raises JSONDecodeError\<close>
  | Parsed pyval \<comment> \<open>\<^verbatim>\<open>json.load\<close> returns this value\<close>

datatype run_outcome =
    Completed int \<comment> \<open>\<^verbatim>\<open>subprocess.run\<close> returned with this return code\<close>
  | FileNotFoundError \<comment> \<open>the \<^verbatim>\<open>ping\<close> executable was not found\<close>
  | OtherException \<comment> \<open>any other subclass of \<^verbatim>\<open>Exception\<close>\<close>

datatype http_outcome =
    Response int \<comment> \<open>a response with this status code\<close>
  | RequestException

datatype event =
    Ping string \<comment> \<open>one run of \<^verbatim>\<open>ping -c 1 -W 2\<close> against the address\<close>
  | HttpPost string string string \<comment> \<open>URL, \<open>chat_id\<close> and \<open>text\<close> of one request\<close>
  | Sleep int \<comment> \<open>\<^verbatim>\<open>time.sleep\<close> of so many seconds\<close>
  | SaveState string pyval \<comment> \<open>the record written: \<open>status\<close> and \<open>changed_at\<close>\<close>

record config =
  cfg_token :: string
  cfg_chat_id :: string
  cfg_target_ip :: string
  cfg_interval :: int

text \<open>The two variables \<^verbatim>\<open>current_status\<close> and \<^verbatim>\<open>changed_at\<close> of \<^verbatim>\<open>main\<close>.\<close>

record loop_state =
  current_status :: pyval
  changed_at :: pyval

record tick =
  tick_probe :: run_outcome
  tick_now :: real \<comment> \<open>\<^verbatim>\<open>time.time()\<close>, a finite double\<close>
  tick_time_str :: string \<comment> \<open>\<^verbatim>\<open>datetime.now().strftime("%H:%M")\<close>\<close>
  tick_net :: "nat \<Rightarrow> http_outcome" \<comment> \<open>the outcome of the request of each attempt\<close>
  tick_disk_ok :: bool \<comment> \<open>the write of the state file succeeds\<close>

type_synonym 'a traced = "event list \<times> 'a result"

text \<open>Sequencing: the second step runs only if the first returned; traces concatenate.\<close>

fun seq :: "'a traced \<Rightarrow> ('a \<Rightarrow> 'b traced) \<Rightarrow> 'b traced" where
  "seq (evs, Returns x) f = (case f x of (evs', r) \<Rightarrow> (evs @ evs', r))"
| "seq (evs, SysExit c) f = (evs, SysExit c)"
| "seq (evs, Raises e) f = (evs, Raises e)"

section \<open>Configuration\<close>

definition get_env_or_exit :: "environ \<Rightarrow> string \<Rightarrow> string result" where
  "get_env_or_exit env name =
     (case env name of
        None \<Rightarrow> SysExit 1
      | Some v \<Rightarrow> if v = [] then SysExit 1 else Returns v)"

text \<open>
  The first part of \<^verbatim>\<open>main\<close>, up to the interval. Setting the time zone has no failure
  the program could meet and is left out.
\<close>

definition resolve_config :: "environ \<Rightarrow> config result" where
  "resolve_config env =
     bind (get_env_or_exit env ''TELEGRAM_BOT_TOKEN'') (\<lambda>token.
     bind (get_env_or_exit env ''TELEGRAM_CHAT_ID'') (\<lambda>chat_id.
     bind (get_env_or_exit env ''TARGET_IPV4'') (\<lambda>target_ip.
       if \<not> validate_ipv4 target_ip then SysExit 1
       else
         (case py_int (case env ''CHECK_INTERVAL_SECONDS'' of
                         None \<Rightarrow> ''180'' | Some v \<Rightarrow> v) of
            None \<Rightarrow> SysExit 1
          | Some interval \<Rightarrow>
              Returns \<lparr>cfg_token = token, cfg_chat_id = chat_id,
                       cfg_target_ip = target_ip, cfg_interval = interval\<rparr>))))"

section \<open>The state store\<close>

text \<open>
  \<^verbatim>\<open>load_state\<close>: \<open>PyNone\<close> is Python's \<^verbatim>\<open>None\<close>. Only JSONDecodeError and IOError are
  caught; UnicodeDecodeError is a ValueError of another kind and passes through.
\<close>

definition load_state :: "state_file \<Rightarrow> pyval result" where
  "load_state file =
     (case file of
        Missing \<Rightarrow> Returns PyNone
      | Unreadable \<Rightarrow> Returns PyNone
      | Unparseable \<Rightarrow> Returns PyNone
      | Undecodable \<Rightarrow> Raises UnicodeDecodeError
      | Parsed v \<Rightarrow> Returns v)"

text \<open>\<^verbatim>\<open>save_state\<close>: the record written is an event; a failing write raises OSError.\<close>

definition save_state :: "bool \<Rightarrow> string \<Rightarrow> pyval \<Rightarrow> unit traced" where
  "save_state disk status changed =
     (if disk then ([SaveState status changed], Returns ()) else ([], Raises OSError))"

text \<open>Truth value of a Python value, as \<^verbatim>\<open>if state:\<close> tests it.\<close>

fun truthy :: "pyval \<Rightarrow> bool" where
  "truthy PyNone = False"
| "truthy (PyBool b) = b"
| "truthy (PyNum x) = (x \<noteq> 0)"
| "truthy (PyStr s) = (s \<noteq> [])"
| "truthy (PyList xs) = (xs \<noteq> [])"
| "truthy (PyDict kvs) = (kvs \<noteq> [])"

text \<open>\<^verbatim>\<open>state[key]\<close> with a string key: only a dictionary can answer.\<close>

fun subscript :: "pyval \<Rightarrow> string \<Rightarrow> pyval result" where
  "subscript (PyDict kvs) key =
     (case map_of kvs key of None \<Rightarrow> Raises KeyError | Some v \<Rightarrow> Returns v)"
| "subscript v key = Raises TypeError"

text \<open>
  \<^verbatim>\<open>datetime.fromtimestamp(changed_at)\<close>, evaluated for the log line: it needs a number
  (a bool counts as 0 or 1) that the platform can represent; \<open>ts_ok\<close> says which
  numbers those are.
\<close>

fun fromtimestamp :: "(real \<Rightarrow> bool) \<Rightarrow> pyval \<Rightarrow> unit result" where
  "fromtimestamp ts_ok (PyNum x) = (if ts_ok x then Returns () else Raises TimestampRange)"
| "fromtimestamp ts_ok (PyBool b) =
     (if ts_ok (if b then 1 else 0) then Returns () else Raises TimestampRange)"
| "fromtimestamp ts_ok v = Raises TypeError"

text \<open>The second part of \<^verbatim>\<open>main\<close>: load the state and set the two variables.\<close>

definition adopt_state :: "(real \<Rightarrow> bool) \<Rightarrow> state_file \<Rightarrow> loop_state result" where
  "adopt_state ts_ok file =
     bind (load_state file) (\<lambda>state.
       if truthy state then
         bind (subscript state ''status'') (\<lambda>status.
         bind (subscript state ''changed_at'') (\<lambda>changed.
         bind (fromtimestamp ts_ok changed) (\<lambda>_.
           Returns \<lparr>current_status = status, changed_at = changed\<rparr>)))
       else Returns \<lparr>current_status = PyNone, changed_at = PyNone\<rparr>)"

section \<open>The prober\<close>

definition ping :: "string \<Rightarrow> run_outcome \<Rightarrow> bool traced" where
  "ping ip outcome =
     (case outcome of
        Completed returncode \<Rightarrow> ([Ping ip], Returns (returncode = 0))
      | FileNotFoundError \<Rightarrow> ([], SysExit 1)
      | OtherException \<Rightarrow> ([], Returns False))"

section \<open>The notifier\<close>

definition max_retries :: nat where
  "max_retries = 3"

definition telegram_url :: "string \<Rightarrow> string" where
  "telegram_url token = ''https://api.telegram.org/bot'' @ token @ ''/sendMessage''"

text \<open>
  The \<^verbatim>\<open>for attempt in range(max_retries)\<close> loop of \<^verbatim>\<open>send_telegram\<close>, over the
  attempts still to make. The pause follows every attempt that did not return.
\<close>

fun send_attempts ::
  "string \<Rightarrow> string \<Rightarrow> string \<Rightarrow> (nat \<Rightarrow> http_outcome) \<Rightarrow> nat list \<Rightarrow> bool traced" where
  "send_attempts url chat message net [] = ([], Returns False)"
| "send_attempts url chat message net (attempt # rest) =
     (if net attempt = Response 200 then ([HttpPost url chat message], Returns True)
      else
        seq ([HttpPost url chat message], Returns ()) (\<lambda>_.
        seq (if attempt < max_retries - 1 then ([Sleep (2 ^ (attempt + 1))], Returns ())
             else ([], Returns ())) (\<lambda>_.
        send_attempts url chat message net rest)))"

definition send_telegram ::
  "string \<Rightarrow> string \<Rightarrow> string \<Rightarrow> (nat \<Rightarrow> http_outcome) \<Rightarrow> bool traced" where
  "send_telegram token chat message net =
     send_attempts (telegram_url token) chat message net [0..<max_retries]"

section \<open>The monitor loop\<close>

definition phrase_down :: string where
  "phrase_down = [CHR '' '', CHR 0xD0, CHR 0xA1, CHR 0xD0, CHR 0xB2, CHR 0xD1, CHR 0x96, CHR 0xD1, CHR 0x82, CHR 0xD0, CHR 0xBB, CHR 0xD0, CHR 0xBE, CHR '' '', CHR 0xD0, CHR 0xB7, CHR 0xD0, CHR 0xBD, CHR 0xD0, CHR 0xB8, CHR 0xD0, CHR 0xBA, CHR 0xD0, CHR 0xBB, CHR 0xD0, CHR 0xBE, CHR 0x0A, CHR 0xD0, CHR 0x92, CHR 0xD0, CHR 0xBE, CHR 0xD0, CHR 0xBD, CHR 0xD0, CHR 0xBE, CHR '' '', CHR 0xD0, CHR 0xB1, CHR 0xD1, CHR 0x83, CHR 0xD0, CHR 0xBB, CHR 0xD0, CHR 0xBE, CHR '' '']"

definition phrase_up :: string where
  "phrase_up = [CHR '' '', CHR 0xD0, CHR 0xA1, CHR 0xD0, CHR 0xB2, CHR 0xD1, CHR 0x96, CHR 0xD1, CHR 0x82, CHR 0xD0, CHR 0xBB, CHR 0xD0, CHR 0xBE, CHR '' '', CHR 0xD0, CHR 0xB7, CHR 0x27, CHR 0xD1, CHR 0x8F, CHR 0xD0, CHR 0xB2, CHR 0xD0, CHR 0xB8, CHR 0xD0, CHR 0xBB, CHR 0xD0, CHR 0xBE, CHR 0xD1, CHR 0x81, CHR 0xD1, CHR 0x8F, CHR 0x0A, CHR 0xD0, CHR 0x99, CHR 0xD0, CHR 0xBE, CHR 0xD0, CHR 0xB3, CHR 0xD0, CHR 0xBE, CHR '' '', CHR 0xD0, CHR 0xBD, CHR 0xD0, CHR 0xB5, CHR '' '', CHR 0xD0, CHR 0xB1, CHR 0xD1, CHR 0x83, CHR 0xD0, CHR 0xBB, CHR 0xD0, CHR 0xBE, CHR '' '']"

definition status_text :: "bool \<Rightarrow> string" where
  "status_text is_up = (if is_up then ''UP'' else ''DOWN'')"

text \<open>
  \<^verbatim>\<open>now - changed_at\<close>, with a float on the left. A number on the right is converted to
  a double first (an integer is rounded, and one too large raises OverflowError; a
  double is left as it is), a bool counts as 0 or 1, anything else is a TypeError. The
  difference is rounded.
\<close>

fun minus_float :: "real \<Rightarrow> pyval \<Rightarrow> pyfloat result" where
  "minus_float x (PyNum y) =
     (case to_float (round_double y) of
        Finite y' \<Rightarrow> Returns (to_float (round_double (x - y')))
      | PosInf \<Rightarrow> Raises OverflowError
      | NegInf \<Rightarrow> Raises OverflowError
      | NaN \<Rightarrow> Raises OverflowError)"
| "minus_float x (PyBool b) = Returns (to_float (round_double (x - (if b then 1 else 0))))"
| "minus_float x v = Raises TypeError"

text \<open>
  \<^verbatim>\<open>time.sleep\<close> on an integer: the length is converted to nanoseconds in a signed
  64-bit integer, which raises OverflowError when it does not fit; a negative length is
  refused with ValueError.
\<close>

definition py_sleep :: "int \<Rightarrow> unit traced" where
  "py_sleep secs =
     (if secs * 1000000000 < - (2 ^ 63) \<or> 2 ^ 63 - 1 < secs * 1000000000
        then ([], Raises OverflowError)
      else if secs < 0 then ([], Raises ValueError)
      else ([Sleep secs], Returns ()))"

definition transition_message :: "string \<Rightarrow> string \<Rightarrow> string \<Rightarrow> string" where
  "transition_message new_status time_str duration_str =
     (if new_status = ''DOWN'' then time_str @ phrase_down @ duration_str
      else time_str @ phrase_up @ duration_str)"

text \<open>One pass through the body of \<^verbatim>\<open>while True\<close>.\<close>

definition loop_iteration :: "config \<Rightarrow> tick \<Rightarrow> loop_state \<Rightarrow> loop_state traced" where
  "loop_iteration cfg w st =
     seq (ping (cfg_target_ip cfg) (tick_probe w)) (\<lambda>is_up.
       let new_status = status_text is_up;
           now = tick_now w
       in
         if current_status st = PyNone then
           seq (save_state (tick_disk_ok w) new_status (PyNum now)) (\<lambda>_.
           seq (py_sleep (cfg_interval cfg)) (\<lambda>_.
             ([], Returns \<lparr>current_status = PyStr new_status, changed_at = PyNum now\<rparr>)))
         else if PyStr new_status \<noteq> current_status st then
           seq ([], minus_float now (changed_at st)) (\<lambda>duration.
           seq ([], format_duration duration) (\<lambda>duration_str.
             let message = transition_message new_status (tick_time_str w) duration_str
             in
               seq (send_telegram (cfg_token cfg) (cfg_chat_id cfg) message (tick_net w)) (\<lambda>_.
               seq (save_state (tick_disk_ok w) new_status (PyNum now)) (\<lambda>_.
               seq (py_sleep (cfg_interval cfg)) (\<lambda>_.
                 ([], Returns \<lparr>current_status = PyStr new_status, changed_at = PyNum now\<rparr>))))))
         else
           seq (py_sleep (cfg_interval cfg)) (\<lambda>_. ([], Returns st)))"

text \<open>
  The loop has no exit of its own. Its behaviour is given by its prefixes: \<open>run_loop\<close>
  makes one pass per tick of the list and returns the variables after the last one,
  unless a pass left the program before.
\<close>

fun run_loop :: "config \<Rightarrow> tick list \<Rightarrow> loop_state \<Rightarrow> loop_state traced" where
  "run_loop cfg [] st = ([], Returns st)"
| "run_loop cfg (w # ws) st = seq (loop_iteration cfg w st) (run_loop cfg ws)"

definition main :: "environ \<Rightarrow> (real \<Rightarrow> bool) \<Rightarrow> state_file \<Rightarrow> tick list \<Rightarrow> loop_state traced" where
  "main env ts_ok file ticks =
     seq ([], resolve_config env) (\<lambda>cfg.
     seq ([], adopt_state ts_ok file) (\<lambda>st.
       run_loop cfg ticks st))"

section \<open>Observations on traces and example inputs\<close>

text \<open>The records written to the state file, in the order of writing.\<close>

fun saved_records :: "event list \<Rightarrow> (string \<times> pyval) list" where
  "saved_records [] = []"
| "saved_records (SaveState status changed # evs) = (status, changed) # saved_records evs"
| "saved_records (Ping ip # evs) = saved_records evs"
| "saved_records (HttpPost url chat message # evs) = saved_records evs"
| "saved_records (Sleep secs # evs) = saved_records evs"

text \<open>
  What a pass observes: the status the probe of the tick stands for, and the time sample
  of the tick.
\<close>

definition observed :: "tick \<Rightarrow> string \<times> pyval" where
  "observed w = (status_text (tick_probe w = Completed 0), PyNum (tick_now w))"

definition valid_status :: "string \<times> pyval \<Rightarrow> bool" where
  "valid_status r = (fst r = ''UP'' \<or> fst r = ''DOWN'')"

text \<open>A complete environment, without the optional interval, and two ticks.\<close>

definition example_env :: environ where
  "example_env = map_of
     [(''TELEGRAM_BOT_TOKEN'', ''123:abc''), (''TELEGRAM_CHAT_ID'', ''42''),
      (''TARGET_IPV4'', ''192.168.1.1'')]"

definition example_config :: config where
  "example_config = \<lparr>cfg_token = ''123:abc'', cfg_chat_id = ''42'',
     cfg_target_ip = ''192.168.1.1'', cfg_interval = 180\<rparr>"

definition tick_up :: "real \<Rightarrow> (nat \<Rightarrow> http_outcome) \<Rightarrow> tick" where
  "tick_up t net = \<lparr>tick_probe = Completed 0, tick_now = t, tick_time_str = ''12:00'',
     tick_net = net, tick_disk_ok = True\<rparr>"

definition tick_down :: "real \<Rightarrow> (nat \<Rightarrow> http_outcome) \<Rightarrow> tick" where
  "tick_down t net = \<lparr>tick_probe = Completed 1, tick_now = t, tick_time_str = ''12:00'',
     tick_net = net, tick_disk_ok = True\<rparr>"

definition net_ok :: "nat \<Rightarrow> http_outcome" where
  "net_ok attempt = Response 200"

definition net_failing :: "nat \<Rightarrow> http_outcome" where
  "net_failing attempt = (if attempt = 1 then RequestException else Response 500)"

section \<open>Properties of the notifier and the prober\<close>

lemma upt_max_retries: "[0..<max_retries] = [0, 1, 2]"
  by (simp add: max_retries_def upt_rec)

text \<open>
  C5. \<^verbatim>\<open>send_telegram\<close> makes at most three requests. It returns True exactly when one of
  the requests it makes is answered with status 200, and makes no further request then.
  After the first failed attempt it sleeps 2 seconds, after the second 4 seconds, and
  after the third it does not sleep and returns False. The trace below is the whole
  effect of the call, for every behaviour \<open>net\<close> of the network.
\<close>

theorem send_telegram_attempts:
  "send_telegram token chat message net =
     (let post = HttpPost (telegram_url token) chat message in
      if net 0 = Response 200 then ([post], Returns True)
      else if net 1 = Response 200 then ([post, Sleep 2, post], Returns True)
      else if net 2 = Response 200 then ([post, Sleep 2, post, Sleep 4, post], Returns True)
      else ([post, Sleep 2, post, Sleep 4, post], Returns False))"
  unfolding send_telegram_def upt_max_retries
  by (simp add: max_retries_def Let_def)



section \<open>Properties of the address validation\<close>

text \<open>
  C2. The claim is that \<^verbatim>\<open>validate_ipv4\<close> accepts exactly the texts of four decimal
  octets separated by dots, with no other character. The function accepts more: since
  each part is judged by \<^verbatim>\<open>int\<close>, a part may carry blanks around the number, a sign, or
  an underscore between two digits. The four texts below are accepted.
\<close>

theorem validate_ipv4_accepts_extra_characters:
  "validate_ipv4 ''1.2.3. 4'' \<and> validate_ipv4 ''+1.2.3.4'' \<and> validate_ipv4 ''1_0.0.0.1''
   \<and> validate_ipv4 ''-0.0.0.0''"
  by (simp add: validate_ipv4_def py_int_def is_space_def is_digit_def digit_value_def
      max_str_digits_def)

section \<open>Properties of the float arithmetic\<close>

text \<open>
  An integer of magnitude below \<open>2 ^ 53\<close> is a double, so rounding leaves it alone; and
  for a double of magnitude below \<open>2 ^ 53\<close> the float division by 60 is the floor of the
  exact quotient.
\<close>

lemma pow2_neg: "0 \<le> j \<Longrightarrow> pow2 (- j) = 1 / 2 ^ nat j"
  by (cases "j = 0") (simp_all add: pow2_def)

lemma round_half_even_of_int: "round_half_even (of_int m) = m"
  by (simp add: round_half_even_def)

lemma binade_of_int:
  assumes "n \<noteq> 0" and "\<bar>n\<bar> < 2 ^ 53"
  shows "0 \<le> binade (of_int n)" and "binade (of_int n) \<le> 52"
proof -
  have pos: "0 < \<bar>n\<bar>" using assms(1) by simp
  then have one: "1 \<le> \<bar>real_of_int n\<bar>" by linarith
  have fl: "\<lfloor>\<bar>real_of_int n\<bar>\<rfloor> = \<bar>n\<bar>"
    by (metis floor_of_int of_int_abs)
  have b: "binade (of_int n) = bitlen \<bar>n\<bar> - 1"
    using one by (simp add: binade_def fl)
  have "bitlen \<bar>n\<bar> \<le> 53"
    using assms(2) by (simp add: bitlen_le_iff_power)
  then show "binade (of_int n) \<le> 52" using b by simp
  have "bitlen \<bar>n\<bar> \<noteq> 0" using pos by (simp add: bitlen_eq_zero_iff)
  then have "1 \<le> bitlen \<bar>n\<bar>" using bitlen_nonneg [of "\<bar>n\<bar>"] by linarith
  then show "0 \<le> binade (of_int n)" using b by simp
qed

lemma round_double_of_int:
  assumes "\<bar>n\<bar> < 2 ^ 53"
  shows "round_double (of_int n) = of_int n"
proof (cases "n = 0")
  case True
  then show ?thesis by (simp add: round_double_def)
next
  case False
  define j where "j = 52 - binade (of_int n)"
  have range: "0 \<le> binade (real_of_int n)" "binade (real_of_int n) \<le> 52"
    using binade_of_int [OF False assms] by simp_all
  then have j: "0 \<le> j" by (simp add: j_def)
  have "max (binade (real_of_int n)) (- 1022) - 52 = - j"
    using range by (simp add: j_def)
  then have ulp: "pow2 (max (binade (real_of_int n)) (- 1022) - 52) = 1 / 2 ^ nat j"
    using pow2_neg [OF j] by simp
  have q: "round_half_even (real_of_int n * 2 ^ nat j) = n * 2 ^ nat j"
    using round_half_even_of_int [of "n * 2 ^ nat j"] by simp
  show ?thesis
    using False by (simp add: round_double_def ulp Let_def q)
qed

lemma float_floordiv_60:
  assumes "\<bar>x\<bar> < 2 ^ 53"
  shows "float_floordiv x 60 = of_int \<lfloor>x / 60\<rfloor>"
proof -
  define k where "k = int_trunc (x / 60)"
  have m: "fmod x 60 = x - 60 * of_int k" by (simp add: fmod_def k_def)
  have k_abs: "\<bar>real_of_int k\<bar> \<le> \<bar>x\<bar> / 60"
    unfolding k_def int_trunc_def by (auto; linarith)
  then have k_small: "\<bar>real_of_int k\<bar> * 60 < 2 ^ 53" using assms by linarith
  have "\<bar>real_of_int (60 * k)\<bar> < 2 ^ 53" using k_small by (simp add: abs_mult)
  then have b60: "\<bar>60 * k\<bar> < 2 ^ 53" by (metis of_int_abs of_int_less_numeral_power_cancel_iff)
  have "\<bar>real_of_int k\<bar> < 2 ^ 53" using k_small by linarith
  then have bk: "\<bar>k\<bar> < 2 ^ 53" by (metis of_int_abs of_int_less_numeral_power_cancel_iff)
  have "\<bar>real_of_int (k - 1)\<bar> < 2 ^ 53" using k_small by (simp; linarith)
  then have bk1: "\<bar>k - 1\<bar> < 2 ^ 53" by (metis of_int_abs of_int_less_numeral_power_cancel_iff)
  have r1: "round_double (x - fmod x 60) = of_int (60 * k)"
    using round_double_of_int [OF b60] by (simp add: m)
  have r2: "round_double (round_double (x - fmod x 60) / 60) = of_int k"
    using round_double_of_int [OF bk] by (simp add: r1)
  have r3: "round_double (of_int k - 1) = of_int (k - 1)"
    using round_double_of_int [OF bk1] by simp
  show ?thesis
  proof (cases "fmod x 60 < 0")
    case True
    then have "x / 60 < of_int k" by (simp add: m)
    then have neg: "\<not> 0 \<le> x / 60 \<or> x / 60 < of_int \<lfloor>x / 60\<rfloor>"
      unfolding k_def int_trunc_def by (auto split: if_splits)
    have "of_int \<lfloor>x / 60\<rfloor> \<le> x / 60" by (rule of_int_floor_le)
    with neg have x_neg: "\<not> 0 \<le> x / 60" by linarith
    then have kc: "k = \<lceil>x / 60\<rceil>" by (simp add: k_def int_trunc_def)
    have "x / 60 \<noteq> of_int \<lceil>x / 60\<rceil>" using \<open>x / 60 < of_int k\<close> kc by simp
    then have "\<lceil>x / 60\<rceil> = \<lfloor>x / 60\<rfloor> + 1"
      by (metis ceiling_altdef of_int_floor_cancel)
    then have fl: "\<lfloor>x / 60\<rfloor> = k - 1" using kc by simp
    show ?thesis
      using True
      by (simp add: float_floordiv_def Let_def r2 r3 fl del: of_int_diff)
  next
    case False
    have "fmod x 60 = 0 \<or> 0 \<le> x"
    proof (rule ccontr)
      assume "\<not> (fmod x 60 = 0 \<or> 0 \<le> x)"
      then have "fmod x 60 \<noteq> 0" "x < 0" by simp_all
      then have "k = \<lceil>x / 60\<rceil>" by (simp add: k_def int_trunc_def)
      then have "x / 60 \<le> of_int k" by simp
      then have "fmod x 60 \<le> 0" by (simp add: m)
      with False \<open>fmod x 60 \<noteq> 0\<close> show False by simp
    qed
    then have fl: "\<lfloor>x / 60\<rfloor> = k"
    proof
      assume "fmod x 60 = 0"
      then have "x / 60 = of_int k" by (simp add: m)
      then show ?thesis by (metis floor_of_int)
    next
      assume "0 \<le> x"
      then show ?thesis by (simp add: k_def int_trunc_def)
    qed
    show ?thesis
      using False
      by (simp add: float_floordiv_def Let_def r2 fl)
  qed
qed

lemma to_float_small: "\<bar>r\<bar> < 2 ^ 53 \<Longrightarrow> to_float r = Finite r"
proof -
  assume "\<bar>r\<bar> < 2 ^ 53"
  moreover have "(2::real) ^ 53 \<le> 2 ^ 1024" by (rule power_increasing) simp_all
  ultimately have "\<not> 2 ^ 1024 \<le> \<bar>r\<bar>" by linarith
  then show ?thesis by (simp add: to_float_def pow2_def)
qed

lemma total_minutes_exact:
  "\<bar>x\<bar> < 2 ^ 53 \<Longrightarrow> int_of_float (floordiv_60 (Finite x)) = Returns \<lfloor>x / 60\<rfloor>"
  by (simp add: floordiv_60_def int_of_float_def float_floordiv_60 int_trunc_def)

section \<open>Properties of the duration formatter\<close>

text \<open>Below \<open>2 ^ 53\<close> the formatter of the code is the formatter of the specification.\<close>

lemma format_duration_exact:
  "\<bar>x\<bar> < 2 ^ 53 \<Longrightarrow> format_duration (Finite x) = Returns (format_duration_spec x)"
  by (simp add: format_duration_def total_minutes_exact format_duration_spec_def
      duration_components_def Let_def mod_mod_cancel)

text \<open>
  C4. For every finite elapsed time of at least 0 and below \<open>2 ^ 53\<close> seconds
  \<^verbatim>\<open>format_duration\<close> returns the text the specification builds: whole minutes by
  flooring, days, hours and minutes from them, the days segment only for days above 0,
  the hours segment when days or hours are above 0, the minutes segment always, joined
  by single blanks. 0 seconds give the minutes segment alone, with value 0. 90000
  seconds are 1500 minutes, which is 1 day, 1 hour and 0 minutes, with all three
  segments present.
\<close>

theorem format_duration_matches_spec:
  "(0 \<le> seconds \<and> seconds < 2 ^ 53 \<longrightarrow>
      format_duration (Finite seconds) = Returns (format_duration_spec seconds))
   \<and> format_duration (Finite 0) = Returns (''0'' @ unit_minutes)
   \<and> format_duration (Finite 90000)
       = Returns (''1'' @ unit_days @ '' 1'' @ unit_hours @ '' 0'' @ unit_minutes)"
proof -
  have "0 \<le> seconds \<and> seconds < 2 ^ 53 \<longrightarrow>
      format_duration (Finite seconds) = Returns (format_duration_spec seconds)"
    by (simp add: format_duration_exact)
  moreover have "format_duration (Finite 0) = Returns (''0'' @ unit_minutes)"
    by (simp add: format_duration_exact format_duration_spec_def str_int_def digit_char_def)
  moreover have "format_duration (Finite 90000) =
      Returns (''1'' @ unit_days @ '' 1'' @ unit_hours @ '' 0'' @ unit_minutes)"
    by (simp add: format_duration_exact format_duration_spec_def str_int_def digit_char_def)
  ultimately show ?thesis by blast
qed

theorem format_duration_matches_spec_witness:
  "(0::real) \<le> 3661 \<and> (3661::real) < 2 ^ 53
   \<and> format_duration (Finite 3661) = Returns (format_duration_spec 3661)
   \<and> format_duration_spec 3661 = ''1'' @ unit_hours @ '' 1'' @ unit_minutes"
  using format_duration_matches_spec [of 3661]
  by (simp add: format_duration_spec_def str_int_def digit_char_def)

text \<open>
  The claim as it was stated fails in two ways. Its example gives 90000 seconds 0 hours,
  where the code gives 1 hour. And it speaks of every input of at least 0: on infinity
  the code raises, and on large doubles the float division rounds, so that at
  \<open>10 ^ 19\<close> seconds the code prints 36 minutes where flooring the exact quotient gives
  46.
\<close>

lemma big_total:
  "int_of_float (floordiv_60 (Finite 10000000000000000000)) = Returns 166666666666666656"
  by code_simp

theorem format_duration_claim_counterexample:
  "format_duration (Finite 90000)
     \<noteq> Returns (''1'' @ unit_days @ '' 0'' @ unit_hours @ '' 0'' @ unit_minutes)
   \<and> format_duration PosInf = Raises ValueError
   \<and> format_duration (Finite 10000000000000000000)
       = Returns (''115740740740740'' @ unit_days @ '' 17'' @ unit_hours @ '' 36'' @ unit_minutes)
   \<and> format_duration_spec 10000000000000000000
       = ''115740740740740'' @ unit_days @ '' 17'' @ unit_hours @ '' 46'' @ unit_minutes"
proof -
  have "format_duration (Finite 90000)
     \<noteq> Returns (''1'' @ unit_days @ '' 0'' @ unit_hours @ '' 0'' @ unit_minutes)"
    by (simp add: format_duration_exact format_duration_spec_def str_int_def digit_char_def
        unit_days_def unit_hours_def unit_minutes_def)
  moreover have "format_duration PosInf = Raises ValueError"
    by (simp add: format_duration_def floordiv_60_def int_of_float_def)
  moreover have "format_duration (Finite 10000000000000000000)
       = Returns (''115740740740740'' @ unit_days @ '' 17'' @ unit_hours @ '' 36'' @ unit_minutes)"
    unfolding format_duration_def big_total
    by (simp add: duration_components_def str_int_def digit_char_def)
  moreover have "format_duration_spec 10000000000000000000
       = ''115740740740740'' @ unit_days @ '' 17'' @ unit_hours @ '' 46'' @ unit_minutes"
    by (simp add: format_duration_spec_def str_int_def digit_char_def)
  ultimately show ?thesis by blast
qed

text \<open>
  C10. \<^verbatim>\<open>format_duration\<close> returns a text on every finite input. For a finite
  negative input above \<open>- 2 ^ 53\<close> seconds, the whole minutes are the floor \<open>t\<close> of the
  exact quotient, the days component is \<open>t div 1440\<close> and negative, the hours component
  is \<open>t mod 1440 div 60\<close> and lies in 0..23, the minutes component is \<open>t mod 60\<close> and
  lies in 0..59, and the text consists of the hours segment (when the hours are above 0)
  and the minutes segment.
\<close>

theorem format_duration_finite:
  "(\<exists>text. format_duration (Finite seconds) = Returns text)
   \<and> (- (2 ^ 53) < seconds \<and> seconds < 0 \<longrightarrow>
        int_of_float (floordiv_60 (Finite seconds)) = Returns \<lfloor>seconds / 60\<rfloor>
        \<and> duration_components \<lfloor>seconds / 60\<rfloor>
            = (\<lfloor>seconds / 60\<rfloor> div 1440, \<lfloor>seconds / 60\<rfloor> mod 1440 div 60,
               \<lfloor>seconds / 60\<rfloor> mod 60)
        \<and> \<lfloor>seconds / 60\<rfloor> div 1440 < 0
        \<and> 0 \<le> \<lfloor>seconds / 60\<rfloor> mod 1440 div 60 \<and> \<lfloor>seconds / 60\<rfloor> mod 1440 div 60 \<le> 23
        \<and> 0 \<le> \<lfloor>seconds / 60\<rfloor> mod 60 \<and> \<lfloor>seconds / 60\<rfloor> mod 60 \<le> 59
        \<and> format_duration (Finite seconds)
            = Returns (join_space
                ((if 0 < \<lfloor>seconds / 60\<rfloor> mod 1440 div 60
                  then [str_int (\<lfloor>seconds / 60\<rfloor> mod 1440 div 60) @ unit_hours] else [])
                 @ [str_int (\<lfloor>seconds / 60\<rfloor> mod 60) @ unit_minutes])))"
proof -
  have total: "\<exists>text. format_duration (Finite seconds) = Returns text"
    by (simp add: format_duration_def floordiv_60_def int_of_float_def Let_def
        split: prod.splits)
  have negative: ?thesis if bounds: "- (2 ^ 53) < seconds" "seconds < 0"
  proof -
    define t where "t = \<lfloor>seconds / 60\<rfloor>"
    define d where "d = t div 1440"
    define h where "h = t mod 1440 div 60"
    define m where "m = t mod 60"
    have small: "\<bar>seconds\<bar> < 2 ^ 53" using bounds by simp
    have tm: "int_of_float (floordiv_60 (Finite seconds)) = Returns t"
      unfolding t_def by (rule total_minutes_exact [OF small])
    have comps: "duration_components t = (d, h, m)"
      by (simp add: duration_components_def Let_def d_def h_def m_def mod_mod_cancel)
    have "seconds / 60 < 0" using bounds by simp
    then have "t < 0" unfolding t_def by (simp add: floor_less_iff)
    then have d_neg: "d < 0" unfolding d_def by simp
    have h_range: "0 \<le> h" "h \<le> 23" unfolding h_def by simp_all
    have m_range: "0 \<le> m" "m \<le> 59" unfolding m_def by simp_all
    have not_pos: "\<not> 0 < d" using d_neg by linarith
    have shown: "format_duration (Finite seconds) =
        Returns (join_space ((if 0 < h then [str_int h @ unit_hours] else [])
                             @ [str_int m @ unit_minutes]))"
      unfolding format_duration_def tm by (simp add: comps Let_def not_pos)
    show ?thesis
      using total tm comps d_neg h_range m_range shown
      unfolding t_def [symmetric] d_def [symmetric] h_def [symmetric] m_def [symmetric]
      by simp
  qed
  show ?thesis
  proof (cases "- (2 ^ 53) < seconds \<and> seconds < 0")
    case True
    then show ?thesis using negative by simp
  next
    case False
    then show ?thesis using total by blast
  qed
qed

theorem format_duration_finite_witness:
  "- (2 ^ 53) < (- 30 :: real) \<and> (- 30 :: real) < 0
   \<and> int_of_float (floordiv_60 (Finite (- 30))) = Returns (- 1)
   \<and> duration_components (- 1) = (- 1, 23, 59)
   \<and> format_duration (Finite (- 30)) = Returns (''23'' @ unit_hours @ '' 59'' @ unit_minutes)"
  using format_duration_finite [of "- 30"]
  by (simp add: str_int_def digit_char_def)

text \<open>
  The claim as it was stated speaks of all numeric inputs. NaN and the two infinities
  are floats too, and on each of them \<^verbatim>\<open>int(seconds // 60)\<close> raises ValueError.
\<close>

theorem format_duration_nonfinite_counterexample:
  "format_duration NaN = Raises ValueError
   \<and> format_duration NegInf = Raises ValueError
   \<and> format_duration PosInf = Raises ValueError"
  by (simp add: format_duration_def floordiv_60_def int_of_float_def)

section \<open>Properties of the startup\<close>

lemma resolve_example_env: "resolve_config example_env = Returns example_config"
  by (simp add: resolve_config_def example_env_def example_config_def get_env_or_exit_def
      validate_ipv4_def py_int_def is_space_def is_digit_def digit_value_def max_str_digits_def)

text \<open>
  C1. The claim is that every state file that is absent, unreadable, unparseable or
  parsed but malformed is treated as absence and never ends the process. A missing
  file, an IOError and a JSONDecodeError are caught by \<^verbatim>\<open>load_state\<close>. A file that
  parses to something other than a record with both fields is not: an object without
  \<^verbatim>\<open>changed_at\<close> raises KeyError in \<^verbatim>\<open>main\<close>, a non-empty list raises TypeError, a
  \<^verbatim>\<open>changed_at\<close> that is no number raises TypeError in the log line, and bytes that are
  no text raise UnicodeDecodeError. In each case the process ends before the first
  probe.
\<close>

theorem malformed_state_crashes:
  "main example_env ts_ok (Parsed (PyDict [(''status'', PyStr ''UP'')])) ticks
     = ([], Raises KeyError)
   \<and> main example_env ts_ok (Parsed (PyList [PyNum 1])) ticks = ([], Raises TypeError)
   \<and> main example_env ts_ok
        (Parsed (PyDict [(''status'', PyStr ''UP''), (''changed_at'', PyStr ''noon'')])) ticks
     = ([], Raises TypeError)
   \<and> main example_env ts_ok Undecodable ticks = ([], Raises UnicodeDecodeError)"
  by (simp add: main_def resolve_example_env adopt_state_def load_state_def)

text \<open>
  C3. If the text of the poll interval (the default \<^verbatim>\<open>180\<close> when the variable is unset)
  does not parse as an integer, the process exits with code 1 before the loop is
  entered: the trace is empty, whatever the rest of the environment, the state file and
  the ticks are.
\<close>

theorem interval_unparseable_exits:
  "py_int (case env ''CHECK_INTERVAL_SECONDS'' of None \<Rightarrow> ''180'' | Some v \<Rightarrow> v) = None
   \<Longrightarrow> main env ts_ok file ticks = ([], SysExit 1)"
  by (simp add: main_def resolve_config_def get_env_or_exit_def
      split: option.splits)

theorem interval_unparseable_exits_witness:
  "py_int ''3.5'' = None
   \<and> main (example_env(''CHECK_INTERVAL_SECONDS'' \<mapsto> ''3.5'')) (\<lambda>t. True) Missing
        [tick_up 1000 net_ok] = ([], SysExit 1)"
proof -
  have h: "py_int (case (example_env(''CHECK_INTERVAL_SECONDS'' \<mapsto> ''3.5''))
             ''CHECK_INTERVAL_SECONDS'' of None \<Rightarrow> ''180'' | Some v \<Rightarrow> v) = None"
    by (simp add: py_int_def is_space_def is_digit_def digit_value_def max_str_digits_def)
  show ?thesis
    using h interval_unparseable_exits
      [of "example_env(''CHECK_INTERVAL_SECONDS'' \<mapsto> ''3.5'')" "\<lambda>t. True" Missing
        "[tick_up 1000 net_ok]"]
    by simp
qed

text \<open>
  The claim as it was stated includes the intervals 0 and negative integers. They parse,
  so the startup accepts them: with 0 the first pass runs to its end, with -5 the first
  pass probes and writes the state and then dies in \<^verbatim>\<open>time.sleep\<close>.
\<close>

theorem interval_zero_counterexample:
  "main (example_env(''CHECK_INTERVAL_SECONDS'' \<mapsto> ''0'')) (\<lambda>t. True) Missing
        [tick_up 1000 net_ok]
     = ([Ping ''192.168.1.1'', SaveState ''UP'' (PyNum 1000), Sleep 0],
        Returns \<lparr>current_status = PyStr ''UP'', changed_at = PyNum 1000\<rparr>)
   \<and> main (example_env(''CHECK_INTERVAL_SECONDS'' \<mapsto> ''-5'')) (\<lambda>t. True) Missing
        [tick_up 1000 net_ok]
     = ([Ping ''192.168.1.1'', SaveState ''UP'' (PyNum 1000)], Raises ValueError)"
  by (simp add: main_def resolve_config_def example_env_def get_env_or_exit_def
      validate_ipv4_def py_int_def is_space_def is_digit_def digit_value_def max_str_digits_def
      adopt_state_def load_state_def loop_iteration_def tick_up_def ping_def save_state_def
      py_sleep_def status_text_def Let_def)

section \<open>Properties of the monitor loop\<close>

lemma send_telegram_returns:
  "\<exists>evs ok. send_telegram token chat message net = (evs, Returns ok)"
  unfolding send_telegram_def upt_max_retries
  by (auto simp: max_retries_def)

lemma send_telegram_no_save: "saved_records (fst (send_telegram token chat message net)) = []"
  unfolding send_telegram_def upt_max_retries
  by (simp add: max_retries_def)

lemma py_sleep_cases:
  obtains (slept) "py_sleep secs = ([Sleep secs], Returns ())"
  | (refused) e where "py_sleep secs = ([], Raises e)"
proof -
  define big where
    "big \<longleftrightarrow> secs * 1000000000 < - (2 ^ 63) \<or> 2 ^ 63 - 1 < secs * 1000000000"
  have "py_sleep secs =
      (if big then ([], Raises OverflowError)
       else if secs < 0 then ([], Raises ValueError)
       else ([Sleep secs], Returns ()))"
    unfolding py_sleep_def big_def by (rule refl)
  then show thesis
    using that by (cases big; cases "secs < 0") simp_all
qed

lemma minus_float_exact:
  assumes "\<bar>y\<bar> < 2 ^ 53" and "\<bar>x - of_int y\<bar> < 2 ^ 53" and "x - of_int y = of_int z"
  shows "minus_float x (PyNum (of_int y)) = Returns (Finite (of_int z))"
proof -
  have "\<bar>real_of_int y\<bar> < 2 ^ 53"
    using assms(1) by (metis of_int_abs of_int_less_numeral_power_cancel_iff)
  then have right: "to_float (round_double (of_int y)) = Finite (of_int y)"
    by (simp add: round_double_of_int [OF assms(1)] to_float_small)
  have "\<bar>real_of_int z\<bar> < 2 ^ 53" using assms(2, 3) by simp
  then have "\<bar>z\<bar> < 2 ^ 53"
    by (metis of_int_abs of_int_less_numeral_power_cancel_iff)
  then have "round_double (of_int z) = of_int z" by (rule round_double_of_int)
  then have "to_float (round_double (x - of_int y)) = Finite (of_int z)"
    using assms(2, 3) by (simp add: to_float_small)
  then show ?thesis by (simp add: right)
qed

text \<open>
  C7. A pass that detects a transition (the probe returned, a status is remembered and
  differs from the observed one, and the duration could be computed and formatted) sets
  the remembered status to the observed one and the remembered time to the time sample
  of the pass, and writes exactly that record, for every behaviour \<open>net\<close> of the
  network: the result of \<^verbatim>\<open>send_telegram\<close> is not looked at, and its events only
  precede the write. The disk is assumed to take the write. After the write comes the
  sleep of the interval; if \<^verbatim>\<open>time.sleep\<close> refuses the interval, the record has been
  written all the same.
\<close>

theorem transition_persists:
  assumes probe: "ping (cfg_target_ip cfg) (tick_probe w) = (pevs, Returns is_up)"
    and remembered: "current_status st \<noteq> PyNone"
    and differs: "current_status st \<noteq> PyStr (status_text is_up)"
    and since: "minus_float (tick_now w) (changed_at st) = Returns duration"
    and formatted: "format_duration duration = Returns duration_str"
    and disk: "tick_disk_ok w"
  shows "loop_iteration cfg (w\<lparr>tick_net := net\<rparr>) st =
     (pevs
      @ fst (send_telegram (cfg_token cfg) (cfg_chat_id cfg)
               (transition_message (status_text is_up) (tick_time_str w) duration_str) net)
      @ SaveState (status_text is_up) (PyNum (tick_now w)) # fst (py_sleep (cfg_interval cfg)),
      bind (snd (py_sleep (cfg_interval cfg))) (\<lambda>u.
        Returns \<lparr>current_status = PyStr (status_text is_up),
                 changed_at = PyNum (tick_now w)\<rparr>))"
proof -
  obtain evs ok where sent:
    "send_telegram (cfg_token cfg) (cfg_chat_id cfg)
       (transition_message (status_text is_up) (tick_time_str w) duration_str) net
     = (evs, Returns ok)"
    using send_telegram_returns by blast
  show ?thesis
  proof (cases "cfg_interval cfg" rule: py_sleep_cases)
    case slept
    then show ?thesis
      using assms differs [symmetric]
      by (simp add: loop_iteration_def Let_def sent save_state_def)
  next
    case (refused e)
    then show ?thesis
      using assms differs [symmetric]
      by (simp add: loop_iteration_def Let_def sent save_state_def)
  qed
qed

theorem transition_persists_witness:
  "loop_iteration example_config (tick_down 5000 net_failing)
     \<lparr>current_status = PyStr ''UP'', changed_at = PyNum 1400\<rparr>
   = ([Ping ''192.168.1.1'',
       HttpPost (telegram_url ''123:abc'') ''42'' (''12:00'' @ phrase_down @ ''1'' @ unit_hours @ '' 0'' @ unit_minutes),
       Sleep 2,
       HttpPost (telegram_url ''123:abc'') ''42'' (''12:00'' @ phrase_down @ ''1'' @ unit_hours @ '' 0'' @ unit_minutes),
       Sleep 4,
       HttpPost (telegram_url ''123:abc'') ''42'' (''12:00'' @ phrase_down @ ''1'' @ unit_hours @ '' 0'' @ unit_minutes),
       SaveState ''DOWN'' (PyNum 5000), Sleep 180],
      Returns \<lparr>current_status = PyStr ''DOWN'', changed_at = PyNum 5000\<rparr>)
   \<and> snd (send_telegram ''123:abc'' ''42''
        (''12:00'' @ phrase_down @ ''1'' @ unit_hours @ '' 0'' @ unit_minutes) net_failing)
       = Returns False
   \<and> loop_iteration example_config (tick_down 5000 net_ok)
     \<lparr>current_status = PyStr ''UP'', changed_at = PyNum 1400\<rparr>
   = ([Ping ''192.168.1.1'',
       HttpPost (telegram_url ''123:abc'') ''42'' (''12:00'' @ phrase_down @ ''1'' @ unit_hours @ '' 0'' @ unit_minutes),
       SaveState ''DOWN'' (PyNum 5000), Sleep 180],
      Returns \<lparr>current_status = PyStr ''DOWN'', changed_at = PyNum 5000\<rparr>)"
proof -
  let ?st = "\<lparr>current_status = PyStr ''UP'', changed_at = PyNum 1400\<rparr>"
  let ?w = "tick_down 5000 net_ok"
  let ?text = "''1'' @ unit_hours @ '' 0'' @ unit_minutes"
  have probe: "ping (cfg_target_ip example_config) (tick_probe ?w)
      = ([Ping ''192.168.1.1''], Returns False)"
    by (simp add: ping_def example_config_def tick_down_def)
  have remembered: "current_status ?st \<noteq> PyNone" by simp
  have differs: "current_status ?st \<noteq> PyStr (status_text False)"
    by (simp add: status_text_def)
  have "minus_float 5000 (PyNum (of_int 1400)) = Returns (Finite (of_int 3600))"
    by (rule minus_float_exact) simp_all
  then have since: "minus_float (tick_now ?w) (changed_at ?st) = Returns (Finite 3600)"
    by (simp add: tick_down_def)
  have formatted: "format_duration (Finite 3600) = Returns ?text"
    by (simp add: format_duration_exact format_duration_spec_def str_int_def digit_char_def)
  have disk: "tick_disk_ok ?w" by (simp add: tick_down_def)
  have upd: "?w\<lparr>tick_net := net_failing\<rparr> = tick_down 5000 net_failing"
    "?w\<lparr>tick_net := net_ok\<rparr> = tick_down 5000 net_ok"
    by (simp_all add: tick_down_def)
  have msg: "transition_message (status_text False) (tick_time_str ?w) ?text
      = ''12:00'' @ phrase_down @ ?text"
    by (simp add: transition_message_def status_text_def tick_down_def)
  have sends: "send_telegram ''123:abc'' ''42'' m net_failing =
      ([HttpPost (telegram_url ''123:abc'') ''42'' m, Sleep 2,
        HttpPost (telegram_url ''123:abc'') ''42'' m, Sleep 4,
        HttpPost (telegram_url ''123:abc'') ''42'' m], Returns False)"
    "send_telegram ''123:abc'' ''42'' m net_ok =
      ([HttpPost (telegram_url ''123:abc'') ''42'' m], Returns True)" for m
    unfolding send_telegram_def upt_max_retries
    by (simp_all add: max_retries_def net_failing_def net_ok_def)
  have sleep: "py_sleep (cfg_interval example_config) = ([Sleep 180], Returns ())"
    by (simp add: py_sleep_def example_config_def)
  show ?thesis
    using transition_persists [OF probe remembered differs since formatted disk, of net_failing]
      transition_persists [OF probe remembered differs since formatted disk, of net_ok]
    unfolding upd msg sleep
    by (simp add: sends example_config_def status_text_def tick_down_def)
qed

text \<open>
  C8. With a state file holding status DOWN and a time \<open>T\<close> that
  \<^verbatim>\<open>datetime.fromtimestamp\<close> accepts, a start whose first probe succeeds computes the
  duration as the float difference of the time sample and \<open>T\<close>, sends the message of
  the transition to UP once, carrying that duration formatted, and then writes status UP
  with the time sample. The difference is assumed to be finite, so that it can be
  formatted, and the disk to take the write. The difference is a rounded one: with
  \<open>T = 2 ^ (- 60)\<close> and the time sample 1700000040 it is 1700000040.
\<close>

theorem restart_continuity:
  assumes config: "resolve_config env = Returns cfg"
    and status: "map_of kvs ''status'' = Some (PyStr ''DOWN'')"
    and changed: "map_of kvs ''changed_at'' = Some (PyNum T)"
    and representable: "ts_ok T"
    and probe: "tick_probe w = Completed 0"
    and elapsed: "minus_float (tick_now w) (PyNum T) = Returns duration"
    and formatted: "format_duration duration = Returns duration_str"
    and disk: "tick_disk_ok w"
  shows "main env ts_ok (Parsed (PyDict kvs)) [w] =
     ([Ping (cfg_target_ip cfg)]
      @ fst (send_telegram (cfg_token cfg) (cfg_chat_id cfg)
               (tick_time_str w @ phrase_up @ duration_str) (tick_net w))
      @ SaveState ''UP'' (PyNum (tick_now w)) # fst (py_sleep (cfg_interval cfg)),
      bind (snd (py_sleep (cfg_interval cfg))) (\<lambda>u.
        Returns \<lparr>current_status = PyStr ''UP'', changed_at = PyNum (tick_now w)\<rparr>))"
proof -
  have nonempty: "kvs \<noteq> []" using status by auto
  have adopted: "adopt_state ts_ok (Parsed (PyDict kvs))
      = Returns \<lparr>current_status = PyStr ''DOWN'', changed_at = PyNum T\<rparr>"
    by (simp add: adopt_state_def load_state_def nonempty status changed representable)
  obtain evs ok where sent:
    "send_telegram (cfg_token cfg) (cfg_chat_id cfg)
       (tick_time_str w @ phrase_up @ duration_str) (tick_net w)
     = (evs, Returns ok)"
    using send_telegram_returns by blast
  have pass: "loop_iteration cfg w \<lparr>current_status = PyStr ''DOWN'', changed_at = PyNum T\<rparr>
      = (Ping (cfg_target_ip cfg) # evs
           @ SaveState ''UP'' (PyNum (tick_now w)) # fst (py_sleep (cfg_interval cfg)),
         bind (snd (py_sleep (cfg_interval cfg))) (\<lambda>u.
           Returns \<lparr>current_status = PyStr ''UP'', changed_at = PyNum (tick_now w)\<rparr>))"
  proof (cases "cfg_interval cfg" rule: py_sleep_cases)
    case slept
    then show ?thesis
      using probe disk elapsed formatted
      by (simp add: loop_iteration_def ping_def status_text_def transition_message_def sent
          save_state_def Let_def)
  next
    case (refused e)
    then show ?thesis
      using probe disk elapsed formatted
      by (simp add: loop_iteration_def ping_def status_text_def transition_message_def sent
          save_state_def Let_def)
  qed
  show ?thesis
  proof (cases "snd (py_sleep (cfg_interval cfg))")
    case (Returns u)
    then show ?thesis by (simp add: main_def config adopted pass sent)
  next
    case (SysExit c)
    then show ?thesis by (simp add: main_def config adopted pass sent)
  next
    case (Raises e)
    then show ?thesis by (simp add: main_def config adopted pass sent)
  qed
qed

lemma tiny_difference:
  "minus_float 1700000040 (PyNum (1 / 2 ^ 60)) = Returns (Finite 1700000040)"
  by code_simp

theorem restart_continuity_witness:
  "main example_env (\<lambda>t. \<bar>t\<bar> \<le> 253402300799)
     (Parsed (PyDict [(''status'', PyStr ''DOWN''), (''changed_at'', PyNum 1400)]))
     [tick_up 5000 net_ok]
   = ([Ping ''192.168.1.1'',
       HttpPost (telegram_url ''123:abc'') ''42''
         (''12:00'' @ phrase_up @ ''1'' @ unit_hours @ '' 0'' @ unit_minutes),
       SaveState ''UP'' (PyNum 5000), Sleep 180],
      Returns \<lparr>current_status = PyStr ''UP'', changed_at = PyNum 5000\<rparr>)
   \<and> main example_env (\<lambda>t. \<bar>t\<bar> \<le> 253402300799)
     (Parsed (PyDict [(''status'', PyStr ''DOWN''), (''changed_at'', PyNum (1 / 2 ^ 60))]))
     [tick_up 1700000040 net_ok]
   = ([Ping ''192.168.1.1'',
       HttpPost (telegram_url ''123:abc'') ''42''
         (''12:00'' @ phrase_up @ ''19675'' @ unit_days @ '' 22'' @ unit_hours
            @ '' 14'' @ unit_minutes),
       SaveState ''UP'' (PyNum 1700000040), Sleep 180],
      Returns \<lparr>current_status = PyStr ''UP'', changed_at = PyNum 1700000040\<rparr>)"
proof -
  let ?ok = "\<lambda>t::real. \<bar>t\<bar> \<le> 253402300799"
  let ?kvs = "[(''status'', PyStr ''DOWN''), (''changed_at'', PyNum 1400)]"
  let ?kvs' = "[(''status'', PyStr ''DOWN''), (''changed_at'', PyNum (1 / 2 ^ 60))]"
  have status: "map_of ?kvs ''status'' = Some (PyStr ''DOWN'')"
    "map_of ?kvs' ''status'' = Some (PyStr ''DOWN'')" by simp_all
  have changed: "map_of ?kvs ''changed_at'' = Some (PyNum 1400)"
    "map_of ?kvs' ''changed_at'' = Some (PyNum (1 / 2 ^ 60))" by simp_all
  have representable: "?ok 1400" "?ok (1 / 2 ^ 60)" by simp_all
  have probe: "tick_probe (tick_up t net_ok) = Completed 0" for t by (simp add: tick_up_def)
  have disk: "tick_disk_ok (tick_up t net_ok)" for t by (simp add: tick_up_def)
  have "minus_float 5000 (PyNum (of_int 1400)) = Returns (Finite (of_int 3600))"
    by (rule minus_float_exact) simp_all
  then have elapsed: "minus_float (tick_now (tick_up 5000 net_ok)) (PyNum 1400)
      = Returns (Finite 3600)"
    by (simp add: tick_up_def)
  have elapsed': "minus_float (tick_now (tick_up 1700000040 net_ok)) (PyNum (1 / 2 ^ 60))
      = Returns (Finite 1700000040)"
    using tiny_difference by (simp add: tick_up_def)
  have formatted: "format_duration (Finite 3600)
      = Returns (''1'' @ unit_hours @ '' 0'' @ unit_minutes)"
    by (simp add: format_duration_exact format_duration_spec_def str_int_def digit_char_def)
  have formatted': "format_duration (Finite 1700000040)
      = Returns (''19675'' @ unit_days @ '' 22'' @ unit_hours @ '' 14'' @ unit_minutes)"
    by (simp add: format_duration_exact format_duration_spec_def str_int_def digit_char_def)
  have sends: "send_telegram ''123:abc'' ''42'' m net_ok =
      ([HttpPost (telegram_url ''123:abc'') ''42'' m], Returns True)" for m
    unfolding send_telegram_def upt_max_retries
    by (simp add: max_retries_def net_ok_def)
  have sleep: "py_sleep (cfg_interval example_config) = ([Sleep 180], Returns ())"
    by (simp add: py_sleep_def example_config_def)
  show ?thesis
    using restart_continuity [where ts_ok = ?ok and T = 1400 and kvs = ?kvs
        and w = "tick_up 5000 net_ok", OF resolve_example_env status(1) changed(1)
        representable(1) probe elapsed formatted disk]
      restart_continuity [where ts_ok = ?ok and T = "1 / 2 ^ 60" and kvs = ?kvs'
        and w = "tick_up 1700000040 net_ok", OF resolve_example_env status(2) changed(2)
        representable(2) probe elapsed' formatted' disk]
    unfolding sleep
    by (simp add: example_config_def tick_up_def sends)
qed

text \<open>
  The claim as it was stated holds the time \<open>T\<close> of the record to no condition. The
  startup formats \<open>T\<close> for its log line before the loop is entered, and a record whose
  time \<^verbatim>\<open>datetime.fromtimestamp\<close> refuses ends the process there: nothing is probed,
  sent or written.
\<close>

theorem restart_unrepresentable_counterexample:
  "main example_env (\<lambda>t. \<bar>t\<bar> \<le> 253402300799)
     (Parsed (PyDict [(''status'', PyStr ''DOWN''),
        (''changed_at'', PyNum 1000000000000000000)]))
     [tick_up 1700000000 net_ok]
   = ([], Raises TimestampRange)"
  by (simp add: main_def resolve_example_env adopt_state_def load_state_def)

lemma saved_records_append: "saved_records (xs @ ys) = saved_records xs @ saved_records ys"
  by (induction xs rule: saved_records.induct) simp_all

lemma fst_seq:
  "fst (seq a f) = fst a @ (case snd a of Returns x \<Rightarrow> fst (f x) | SysExit c \<Rightarrow> [] | Raises e \<Rightarrow> [])"
  by (cases a; cases "snd a") (auto split: prod.splits)

lemma send_telegram_trace:
  obtains evs ok where "send_telegram token chat message net = (evs, Returns ok)"
    and "saved_records evs = []"
proof -
  obtain evs ok where sent: "send_telegram token chat message net = (evs, Returns ok)"
    using send_telegram_returns by blast
  moreover have "saved_records evs = []"
    using send_telegram_no_save [of token chat message net] by (simp add: sent)
  ultimately show thesis using that by blast
qed

lemma py_sleep_no_save: "saved_records (fst (py_sleep secs)) = []"
  by (simp add: py_sleep_def)

lemma sleep_tail_saves:
  "saved_records (fst (seq (py_sleep secs) (\<lambda>u. ([], r)))) = []"
  by (cases secs rule: py_sleep_cases) simp_all

lemma save_tail_saves:
  "saved_records (fst (seq (save_state disk status changed)
      (\<lambda>u. seq (py_sleep secs) (\<lambda>v. ([], r)))))
   = (if disk then [(status, changed)] else [])"
  by (cases secs rule: py_sleep_cases) (simp_all add: save_state_def)

lemma iteration_after_probe:
  assumes probe: "ping (cfg_target_ip cfg) (tick_probe w) = (pevs, Returns b)"
    and quiet: "saved_records pevs = []"
  shows "saved_records (fst (loop_iteration cfg w st)) = []
     \<or> saved_records (fst (loop_iteration cfg w st)) = [(status_text b, PyNum (tick_now w))]"
proof -
  let ?tail = "seq (save_state (tick_disk_ok w) (status_text b) (PyNum (tick_now w)))
      (\<lambda>u. seq (py_sleep (cfg_interval cfg)) (\<lambda>v.
         ([], Returns \<lparr>current_status = PyStr (status_text b),
                       changed_at = PyNum (tick_now w)\<rparr>)))"
  have tail: "saved_records (fst ?tail) = [] \<or>
      saved_records (fst ?tail) = [(status_text b, PyNum (tick_now w))]"
    by (simp add: save_tail_saves)
  consider (cold) "current_status st = PyNone"
    | (change) "current_status st \<noteq> PyNone" "PyStr (status_text b) \<noteq> current_status st"
    | (same) "current_status st \<noteq> PyNone" "PyStr (status_text b) = current_status st"
    by blast
  then show ?thesis
  proof cases
    case cold
    have "fst (loop_iteration cfg w st) = pevs @ fst ?tail"
      using cold by (simp add: loop_iteration_def probe Let_def split: prod.splits)
    then show ?thesis using tail by (simp add: saved_records_append quiet)
  next
    case change
    show ?thesis
    proof (cases "minus_float (tick_now w) (changed_at st)")
      case (Returns duration)
      note since = this
      show ?thesis
      proof (cases "format_duration duration")
        case (Returns duration_str)
        obtain evs ok where sent:
          "send_telegram (cfg_token cfg) (cfg_chat_id cfg)
             (transition_message (status_text b) (tick_time_str w) duration_str)
             (tick_net w) = (evs, Returns ok)"
          and silent: "saved_records evs = []"
          by (rule send_telegram_trace)
        have "fst (loop_iteration cfg w st) = pevs @ evs @ fst ?tail"
          using change
          by (simp add: loop_iteration_def probe Let_def since Returns sent
              split: prod.splits)
        then show ?thesis using tail by (simp add: saved_records_append quiet silent)
      next
        case (SysExit c)
        with change since show ?thesis
          by (simp add: loop_iteration_def probe Let_def quiet)
      next
        case (Raises e)
        with change since show ?thesis
          by (simp add: loop_iteration_def probe Let_def quiet)
      qed
    next
      case (SysExit c)
      with change show ?thesis
        by (simp add: loop_iteration_def probe Let_def quiet)
    next
      case (Raises e)
      with change show ?thesis
        by (simp add: loop_iteration_def probe Let_def quiet)
    qed
  next
    case same
    have "fst (loop_iteration cfg w st)
        = pevs @ fst (seq (py_sleep (cfg_interval cfg)) (\<lambda>u. ([], Returns st)))"
      using same by (simp add: loop_iteration_def probe Let_def split: prod.splits)
    then show ?thesis by (simp add: saved_records_append quiet sleep_tail_saves)
  qed
qed

lemma iteration_saves:
  "saved_records (fst (loop_iteration cfg w st)) = []
   \<or> saved_records (fst (loop_iteration cfg w st)) = [observed w]"
proof (cases "tick_probe w")
  case (Completed rc)
  have "ping (cfg_target_ip cfg) (tick_probe w)
      = ([Ping (cfg_target_ip cfg)], Returns (tick_probe w = Completed 0))"
    by (simp add: ping_def Completed)
  from iteration_after_probe [OF this] show ?thesis
    by (simp add: observed_def)
next
  case FileNotFoundError
  then show ?thesis by (simp add: loop_iteration_def ping_def)
next
  case OtherException
  have "ping (cfg_target_ip cfg) (tick_probe w)
      = ([], Returns (tick_probe w = Completed 0))"
    by (simp add: ping_def OtherException)
  from iteration_after_probe [OF this] show ?thesis
    by (simp add: observed_def)
qed

lemma valid_status_observed: "valid_status (observed w)"
  by (simp add: valid_status_def observed_def status_text_def)

text \<open>
  C9. Whatever the variables are at the start and however many passes are made, the
  records written by the loop are, in order, records observed by some of the passes:
  the status is the text UP or DOWN that the probe of the pass stands for, and the time
  is the time sample of that same pass. A pass writes at most one record.
\<close>

theorem saved_records_are_observations:
  "subseq (saved_records (fst (run_loop cfg ticks st))) (map observed ticks)
   \<and> list_all valid_status (saved_records (fst (run_loop cfg ticks st)))"
proof (induction ticks arbitrary: st)
  case Nil
  then show ?case by simp
next
  case (Cons w ws)
  let ?it = "loop_iteration cfg w st"
  show ?case
  proof (cases "snd ?it")
    case (Returns st')
    have run: "fst (run_loop cfg (w # ws) st) = fst ?it @ fst (run_loop cfg ws st')"
      by (simp add: fst_seq Returns del: seq.simps)
    from iteration_saves [of cfg w st] show ?thesis
    proof
      assume "saved_records (fst ?it) = []"
      then show ?thesis
        using Cons.IH [of st']
        by (auto simp: run saved_records_append simp del: run_loop.simps)
    next
      assume "saved_records (fst ?it) = [observed w]"
      then show ?thesis
        using Cons.IH [of st']
        by (simp add: run saved_records_append valid_status_observed del: run_loop.simps)
    qed
  next
    case (SysExit c)
    have run: "fst (run_loop cfg (w # ws) st) = fst ?it"
      by (simp add: fst_seq SysExit del: seq.simps)
    from iteration_saves [of cfg w st] show ?thesis
      by (auto simp: run valid_status_observed simp del: run_loop.simps)
  next
    case (Raises e)
    have run: "fst (run_loop cfg (w # ws) st) = fst ?it"
      by (simp add: fst_seq Raises del: seq.simps)
    from iteration_saves [of cfg w st] show ?thesis
      by (auto simp: run valid_status_observed simp del: run_loop.simps)
  qed
qed

end
